theory Spec2Isabelle
  imports Main "HOL-Library.Sublist" "HOL-Library.Multiset"
begin

section \<open>JavaScript values and objects\<close>

text \<open>
  The scripts read properties of the JSON objects that the messaging provider returns.
  A property value is absent (\<open>undefined\<close>), \<open>null\<close>, a boolean, a string or an array;
  identifiers, e-mail addresses and dates are strings in the provider's JSON, so numbers
  are not part of the value universe. A string is a list of code units below 256.
\<close>

datatype jsval = JUndefined | JNull | JBool bool | JStr string | JArr "jsval list"

text \<open>An object is an association list; reading a property that is absent gives \<open>undefined\<close>.\<close>

type_synonym obj = "(string \<times> jsval) list"

definition getProp :: "obj \<Rightarrow> string \<Rightarrow> jsval" where
  "getProp ob k = (case map_of ob k of None \<Rightarrow> JUndefined | Some v \<Rightarrow> v)"

text \<open>\<open>delete ob.k\<close>\<close>

definition deleteProp :: "string \<Rightarrow> obj \<Rightarrow> obj" where
  "deleteProp k ob = filter (\<lambda>kv. fst kv \<noteq> k) ob"

text \<open>Truthiness, as \<open>!v\<close>, \<open>a || b\<close> and \<open>a && b\<close> test it.\<close>

fun truthy :: "jsval \<Rightarrow> bool" where
  "truthy JUndefined = False"
| "truthy JNull = False"
| "truthy (JBool b) = b"
| "truthy (JStr s) = (s \<noteq> [])"
| "truthy (JArr xs) = True"

definition nullish :: "jsval \<Rightarrow> bool" where
  "nullish v = (v = JUndefined \<or> v = JNull)"

text \<open>\<open>a || b\<close> and \<open>a ?? b\<close>\<close>

definition orJS :: "jsval \<Rightarrow> jsval \<Rightarrow> jsval" where
  "orJS a b = (if truthy a then a else b)"

definition coalesce :: "jsval \<Rightarrow> jsval \<Rightarrow> jsval" where
  "coalesce a b = (if nullish a then b else a)"

text \<open>\<open>Array.prototype.join\<close> with the separator \<open>,\<close>, on the elements' strings.\<close>

fun joinComma :: "string list \<Rightarrow> string" where
  "joinComma [] = []"
| "joinComma [x] = x"
| "joinComma (x # y # ys) = x @ '','' @ joinComma (y # ys)"

text \<open>\<open>String(v)\<close>: an array prints its elements joined by commas, \<open>null\<close> and
  \<open>undefined\<close> elements as the empty string.\<close>

fun toStringJS :: "jsval \<Rightarrow> string" where
  "toStringJS JUndefined = ''undefined''"
| "toStringJS JNull = ''null''"
| "toStringJS (JBool b) = (if b then ''true'' else ''false'')"
| "toStringJS (JStr s) = s"
| "toStringJS (JArr xs) =
     joinComma (map (\<lambda>x. if x = JUndefined \<or> x = JNull then [] else toStringJS x) xs)"

text \<open>
  \<open>a === b\<close> and the SameValueZero comparison of \<open>Set.prototype.has\<close> and
  \<open>Array.prototype.includes\<close>. Primitive values are compared by value. Arrays are
  compared by reference, and the two sides always come from different provider responses,
  so an array is never equal to anything here.
\<close>

fun strictEq :: "jsval \<Rightarrow> jsval \<Rightarrow> bool" where
  "strictEq (JArr xs) b = False"
| "strictEq a b = (a = b)"

definition includesJS :: "jsval list \<Rightarrow> jsval \<Rightarrow> bool" where
  "includesJS xs v = list_ex (\<lambda>x. strictEq x v) xs"

text \<open>\<open>s.endsWith(suf)\<close>\<close>

definition endsWith :: "string \<Rightarrow> string \<Rightarrow> bool" where
  "endsWith s suf = (length suf \<le> length s \<and> drop (length s - length suf) s = suf)"

section \<open>Constants of fetch-unread.mjs\<close>

definition DEFAULT_ACTIVITY_HOURS :: int where "DEFAULT_ACTIVITY_HOURS = 24"
definition MIN_ACTIVITY_HOURS :: int where "MIN_ACTIVITY_HOURS = 1"
definition MAX_ACTIVITY_HOURS :: int where "MAX_ACTIVITY_HOURS = 720"

definition ROOM_TYPES :: "string list" where
  "ROOM_TYPES = [''direct'', ''group'']"

definition BOT_EMAIL_SUFFIX :: string where
  "BOT_EMAIL_SUFFIX = ''@webex.bot''"

text \<open>\<open>ROOM_TYPES.has(v)\<close>\<close>

definition roomTypesHas :: "jsval \<Rightarrow> bool" where
  "roomTypesHas v = (case v of JStr s \<Rightarrow> s \<in> set ROOM_TYPES | _ \<Rightarrow> False)"

section \<open>Timestamps\<close>

text \<open>
  \<open>new Date(value).getTime()\<close>, with \<open>None\<close> for \<open>NaN\<close>. Parsing a date string is
  the JavaScript runtime's \<open>Date.parse\<close>, which is taken as the parameter \<open>dp\<close>.
  A non-string argument is converted first: \<open>null\<close> and \<open>false\<close> to the number 0,
  \<open>true\<close> to 1, \<open>undefined\<close> to \<open>NaN\<close>, an array to its string.
\<close>

fun dateGetTime :: "(string \<Rightarrow> int option) \<Rightarrow> jsval \<Rightarrow> int option" where
  "dateGetTime dp JUndefined = None"
| "dateGetTime dp JNull = Some 0"
| "dateGetTime dp (JBool b) = Some (if b then 1 else 0)"
| "dateGetTime dp (JStr s) = dp s"
| "dateGetTime dp (JArr xs) = dp (toStringJS (JArr xs))"

definition toTs :: "(string \<Rightarrow> int option) \<Rightarrow> jsval \<Rightarrow> int" where
  "toTs dp v =
     (if \<not> truthy v then 0
      else case dateGetTime dp v of None \<Rightarrow> 0 | Some t \<Rightarrow> t)"

section \<open>Room Normalizer\<close>

record room =
  room_id :: jsval
  title :: jsval
  room_type :: jsval
  lastActivityDate :: jsval
  lastSeenDate :: jsval
  isUnread :: bool

definition normalizeRoom :: "(string \<Rightarrow> int option) \<Rightarrow> obj \<Rightarrow> room" where
  "normalizeRoom dp r =
     (let lad = orJS (orJS (getProp r ''lastActivityDate'') (getProp r ''lastActivity'')) JNull;
          lsd = orJS (orJS (getProp r ''lastSeenDate'') (getProp r ''lastSeenActivityDate'')) JNull
      in \<lparr> room_id = getProp r ''id'',
           title = orJS (getProp r ''title'') (getProp r ''id''),
           room_type = orJS (orJS (getProp r ''type'') (getProp r ''roomType'')) (JStr ''group''),
           lastActivityDate = lad,
           lastSeenDate = lsd,
           isUnread = (toTs dp lad > toTs dp lsd) \<rparr>)"

section \<open>Activity Filter\<close>

text \<open>\<open>Date.now()\<close> is the argument \<open>now\<close>, in milliseconds.\<close>

definition inLastXhours :: "int \<Rightarrow> (string \<Rightarrow> int option) \<Rightarrow> 'a room_scheme \<Rightarrow> int \<Rightarrow> bool" where
  "inLastXhours now dp r hours =
     (let ACTIVITY_FROM_MS = hours * 60 * 60 * 1000;
          cutoff = now - ACTIVITY_FROM_MS
      in toTs dp (lastActivityDate r) \<ge> cutoff)"

text \<open>The two filters of \<open>main\<close> on one room, at one reading of the clock.\<close>

definition activityKeeps :: "int \<Rightarrow> (string \<Rightarrow> int option) \<Rightarrow> int \<Rightarrow> room \<Rightarrow> bool" where
  "activityKeeps now dp activityHours r =
     (roomTypesHas (room_type r) \<and> inLastXhours now dp r activityHours)"

text \<open>
  \<open>.filter((r) => inLastXhours(r, activityHours))\<close>: the clock is read once for each
  room; \<open>clock i\<close> is the reading at the \<open>i\<close>-th call.
\<close>

fun filterInLast :: "(nat \<Rightarrow> int) \<Rightarrow> nat \<Rightarrow> (string \<Rightarrow> int option) \<Rightarrow> int \<Rightarrow> room list \<Rightarrow> room list" where
  "filterInLast clock i dp hours [] = []"
| "filterInLast clock i dp hours (r # rs) =
     (if inLastXhours (clock i) dp r hours then r # filterInLast clock (Suc i) dp hours rs
      else filterInLast clock (Suc i) dp hours rs)"

text \<open>
  The list \<open>normalized\<close> of \<open>main\<close>. \<open>Array.prototype.sort\<close> is stable, and the
  comparator orders by descending timestamp, so the result is the stable sort on the
  negated timestamp.
\<close>

definition normalized :: "(nat \<Rightarrow> int) \<Rightarrow> (string \<Rightarrow> int option) \<Rightarrow> int \<Rightarrow> obj list \<Rightarrow> room list" where
  "normalized clock dp activityHours rooms =
     sort_key (\<lambda>r. - toTs dp (lastActivityDate r))
       (filterInLast clock 0 dp activityHours
          (filter (\<lambda>r. roomTypesHas (room_type r)) (map (normalizeRoom dp) rooms)))"

definition unreadOf :: "room list \<Rightarrow> room list" where
  "unreadOf rs = filter isUnread rs"

section \<open>Unread Message Resolver\<close>

definition MESSAGES_PAGE_SIZE :: nat where "MESSAGES_PAGE_SIZE = 100"

text \<open>What the provider's list call resolves to: an array, an object with an \<open>items\<close>
  array, or anything else.\<close>

datatype response = RespArray "obj list" | RespItems "obj list" | RespOther

fun extractItems :: "response \<Rightarrow> obj list" where
  "extractItems (RespArray xs) = xs"
| "extractItems (RespItems xs) = xs"
| "extractItems RespOther = []"

definition isUnreadMessage :: "(string \<Rightarrow> int option) \<Rightarrow> obj \<Rightarrow> int \<Rightarrow> jsval \<Rightarrow> bool" where
  "isUnreadMessage dp message lastSeenTs meId =
     (let createdTs = toTs dp (getProp message ''created'')
      in if createdTs \<le> lastSeenTs then False
         else \<not> strictEq (getProp message ''personId'') meId)"

text \<open>
  \<open>webex.messages.list({roomId, max})\<close> is the parameter \<open>messagesList\<close>: it rejects with
  an error message (\<open>Inl\<close>) or resolves to a response. The comparator of the sort orders
  by ascending \<open>created\<close> timestamp.
\<close>

definition getUnreadMessages ::
  "(string \<Rightarrow> int option) \<Rightarrow> (jsval \<Rightarrow> nat \<Rightarrow> string + response) \<Rightarrow> 'a room_scheme \<Rightarrow> jsval
     \<Rightarrow> string + obj list" where
  "getUnreadMessages dp messagesList room meId =
     (case messagesList (room_id room) MESSAGES_PAGE_SIZE of
        Inl err \<Rightarrow> Inl err
      | Inr messagesResponse \<Rightarrow>
          (let messages = extractItems messagesResponse;
               lastSeenTs = toTs dp (lastSeenDate room)
           in Inr (sort_key (\<lambda>m. toTs dp (getProp m ''created''))
                     (filter (\<lambda>message. isUnreadMessage dp message lastSeenTs meId) messages))))"

definition roomMentionsMe :: "obj list \<Rightarrow> jsval \<Rightarrow> bool" where
  "roomMentionsMe unreadMsgs meId =
     (if \<not> truthy meId then False
      else list_ex (\<lambda>m. case getProp m ''mentionedPeople'' of
                           JArr people \<Rightarrow> includesJS people meId
                         | _ \<Rightarrow> False) unreadMsgs)"

record roomWithUnread = room +
  unreadMessages :: "obj list"
  unreadMessageCount :: nat
  mentionedMe :: bool

text \<open>\<open>{ ...room, unreadMessages, unreadMessageCount, mentionedMe }\<close>\<close>

definition withUnread :: "room \<Rightarrow> obj list \<Rightarrow> nat \<Rightarrow> bool \<Rightarrow> roomWithUnread" where
  "withUnread r ms n b =
     \<lparr> room_id = room_id r, title = title r, room_type = room_type r,
       lastActivityDate = lastActivityDate r, lastSeenDate = lastSeenDate r,
       isUnread = isUnread r,
       unreadMessages = ms, unreadMessageCount = n, mentionedMe = b \<rparr>"

text \<open>The body of the \<open>map\<close> callback of \<open>attachUnreadMessages\<close>: \<open>try\<close> and \<open>catch\<close>.
  The warning of the \<open>catch\<close> branch goes to the diagnostic stream and is not part of
  the result.\<close>

definition attachUnread ::
  "(string \<Rightarrow> int option) \<Rightarrow> (jsval \<Rightarrow> nat \<Rightarrow> string + response) \<Rightarrow> jsval \<Rightarrow> room
     \<Rightarrow> roomWithUnread" where
  "attachUnread dp messagesList meId room =
     (case getUnreadMessages dp messagesList room meId of
        Inr unreadMsgs \<Rightarrow>
          withUnread room unreadMsgs (length unreadMsgs) (roomMentionsMe unreadMsgs meId)
      | Inl err \<Rightarrow> withUnread room [] 0 False)"

definition attachUnreadMessages ::
  "(string \<Rightarrow> int option) \<Rightarrow> (jsval \<Rightarrow> nat \<Rightarrow> string + response) \<Rightarrow> room list \<Rightarrow> jsval
     \<Rightarrow> roomWithUnread list" where
  "attachUnreadMessages dp messagesList unreadRooms meId =
     map (attachUnread dp messagesList meId) unreadRooms"

section \<open>Bot/Noise Filter\<close>

definition isOutputRoom :: "'a room_scheme \<Rightarrow> bool" where
  "isOutputRoom r = roomTypesHas (room_type r)"

definition fromBot :: "obj \<Rightarrow> bool" where
  "fromBot m =
     endsWith (toStringJS (coalesce (getProp m ''personEmail'') (JStr ''''))) BOT_EMAIL_SUFFIX"

definition roomHasNoBotMessages :: "roomWithUnread \<Rightarrow> bool" where
  "roomHasNoBotMessages r = (\<not> list_ex fromBot (unreadMessages r))"

text \<open>The two filters of \<open>roomsFiltered\<close> in \<open>main\<close>, and the cap that follows them.\<close>

definition botNoiseFilter :: "roomWithUnread list \<Rightarrow> roomWithUnread list" where
  "botNoiseFilter rs = filter roomHasNoBotMessages (filter isOutputRoom rs)"

definition roomsFiltered :: "nat \<Rightarrow> roomWithUnread list \<Rightarrow> roomWithUnread list" where
  "roomsFiltered maxRoomsToReturn rs = take maxRoomsToReturn (botNoiseFilter rs)"

section \<open>Message Slimmer and People Index\<close>

text \<open>\<open>v != null\<close> holds for every value but \<open>null\<close> and \<open>undefined\<close>.\<close>

definition slimMessage :: "obj \<Rightarrow> obj" where
  "slimMessage message =
     (let m1 = deleteProp ''roomId'' message;
          m2 = deleteProp ''personId'' m1;
          m3 = deleteProp ''roomType'' m2;
          m4 = deleteProp ''created'' m3;
          m5 = deleteProp ''updated'' m4;
          m6 = (if \<not> nullish (getProp m5 ''markdown'') then deleteProp ''text'' m5 else m5)
      in if \<not> nullish (getProp m6 ''html'')
         then deleteProp ''text'' (deleteProp ''markdown'' m6)
         else m6)"

text \<open>
  The people index is an object without prototype: its keys are the strings of the
  e-mail values, in insertion order. \<open>people[email] === undefined\<close> holds when the key is
  absent, since only truthy identifiers are stored.
\<close>

type_synonym people = "(string \<times> jsval) list"

text \<open>The first three lines of the inner loop body of \<open>buildPeopleAndSlimMessages\<close>.\<close>

definition recordPerson :: "people \<Rightarrow> obj \<Rightarrow> people" where
  "recordPerson people message =
     (let email = coalesce (getProp message ''personEmail'') JNull;
          pid = getProp message ''personId''
      in if truthy email \<and> truthy pid \<and> map_of people (toStringJS email) = None
         then people @ [(toStringJS email, pid)]
         else people)"

text \<open>The inner loop, over the messages of one room, and the outer loop, over the rooms.\<close>

fun peopleOfMessages :: "people \<Rightarrow> obj list \<Rightarrow> people" where
  "peopleOfMessages people [] = people"
| "peopleOfMessages people (message # ms) = peopleOfMessages (recordPerson people message) ms"

fun peopleOfRooms :: "people \<Rightarrow> roomWithUnread list \<Rightarrow> people" where
  "peopleOfRooms people [] = people"
| "peopleOfRooms people (r # rs) =
     peopleOfRooms (peopleOfMessages people (unreadMessages r)) rs"

text \<open>The function returns the index; the rooms it has mutated are the second component.\<close>

definition buildPeopleAndSlimMessages ::
  "roomWithUnread list \<Rightarrow> people \<times> roomWithUnread list" where
  "buildPeopleAndSlimMessages roomsWithMessages =
     (peopleOfRooms [] roomsWithMessages,
      map (\<lambda>r. r\<lparr>unreadMessages := map slimMessage (unreadMessages r)\<rparr>) roomsWithMessages)"

text \<open>The condition under which the loop body, at message \<open>m\<close>, has an entry to store under
  the key \<open>k\<close>.\<close>

definition personKey :: "string \<Rightarrow> obj \<Rightarrow> bool" where
  "personKey k m =
     (truthy (getProp m ''personEmail'') \<and> truthy (getProp m ''personId'')
      \<and> toStringJS (getProp m ''personEmail'') = k)"

section \<open>Activity window\<close>

text \<open>
  The result of \<open>parseInt\<close>: \<open>NaN\<close>, an infinity, or an integer. A digit string whose
  value reaches \<open>2^1024 - 2^970\<close> rounds to infinity as a double; below that the model
  keeps the exact integer, which the comparison with 1 and the minimum with 720 cannot
  tell from the rounded one.
\<close>

datatype jsnum = NumNaN | NumInf | Num int

definition isWhiteSpace :: "char \<Rightarrow> bool" where
  "isWhiteSpace c = (of_char c \<in> {9::nat, 10, 11, 12, 13, 32, 160})"

definition isDigit :: "char \<Rightarrow> bool" where
  "isDigit c = (48 \<le> (of_char c :: nat) \<and> (of_char c :: nat) \<le> 57)"

fun digitsValue :: "int \<Rightarrow> string \<Rightarrow> int" where
  "digitsValue acc [] = acc"
| "digitsValue acc (c # cs) = digitsValue (acc * 10 + (of_char c - 48)) cs"

definition DBL_OVERFLOW :: int where
  "DBL_OVERFLOW = 2 ^ 1024 - 2 ^ 970"

text \<open>\<open>parseInt(s, 10)\<close>: leading white space, an optional sign, the longest run of
  decimal digits.\<close>

definition parseInt10 :: "string \<Rightarrow> jsnum" where
  "parseInt10 s =
     (let t = dropWhile isWhiteSpace s;
          neg = (t \<noteq> [] \<and> hd t = CHR ''-'');
          u = (if t \<noteq> [] \<and> (hd t = CHR ''-'' \<or> hd t = CHR ''+'') then tl t else t);
          ds = takeWhile isDigit u
      in if ds = [] then NumNaN
         else let v = digitsValue 0 ds
              in if v \<ge> DBL_OVERFLOW then NumInf
                 else Num (if neg then - v else v))"

text \<open>
  \<open>cliHours\<close> is \<open>null\<close>, \<open>undefined\<close> (both \<open>None\<close>) or a string of the command line;
  \<open>envHours\<close> is \<open>process.env.WEBEX_ACTIVITY_HOURS\<close>, absent or a string.
\<close>

definition getActivityHours :: "string option \<Rightarrow> string option \<Rightarrow> int" where
  "getActivityHours cliHours envHours =
     (let raw = (case cliHours of Some s \<Rightarrow> Some s | None \<Rightarrow> envHours)
      in case raw of
           None \<Rightarrow> DEFAULT_ACTIVITY_HOURS
         | Some s \<Rightarrow>
             if s = [] then DEFAULT_ACTIVITY_HOURS
             else (case parseInt10 s of
                     Num n \<Rightarrow> if n < MIN_ACTIVITY_HOURS then DEFAULT_ACTIVITY_HOURS
                              else min n MAX_ACTIVITY_HOURS
                   | _ \<Rightarrow> DEFAULT_ACTIVITY_HOURS))"

text \<open>The decimal numeral of a natural number, the form in which a number of hours is
  written on the command line or in the environment.\<close>

function decimalString :: "nat \<Rightarrow> string" where
  "decimalString n =
     (if n < 10 then [char_of (48 + n)]
      else decimalString (n div 10) @ [char_of (48 + n mod 10)])"
  by pat_completeness auto
termination
  by (relation "measure id") auto

declare decimalString.simps [simp del]

section \<open>Send Pipeline (send-message.mjs)\<close>

text \<open>\<open>isEmail\<close> is only applied to the trimmed recipient, which is a string.\<close>

definition isEmail :: "string \<Rightarrow> bool" where
  "isEmail v = (CHR ''@'' \<in> set v)"

text \<open>\<open>String.prototype.trim\<close>\<close>

definition trim :: "string \<Rightarrow> string" where
  "trim s = rev (dropWhile isWhiteSpace (rev (dropWhile isWhiteSpace s)))"

text \<open>
  One run of \<open>main\<close>: the payloads passed to \<open>webex.messages.create\<close>, in order, the JSON
  line printed, and the exit code.
\<close>

datatype sendOutput =
    OutError string
  | OutOk jsval jsval jsval

record sendRun =
  created :: "obj list"
  printed :: sendOutput
  exitCode :: nat

text \<open>
  \<open>token\<close>, \<open>envTo\<close> and \<open>envMessage\<close> are the environment variables, \<open>optTo\<close> and
  \<open>optMessage\<close> the parsed options (\<open>None\<close> when absent). \<open>initWebex\<close> fails with a
  message or succeeds; \<open>create\<close> is \<open>webex.messages.create\<close>, which rejects with a message
  or resolves to the created message.
\<close>

definition sendMain ::
  "string option \<Rightarrow> string option \<Rightarrow> string option \<Rightarrow> string option \<Rightarrow> string option
     \<Rightarrow> (string \<Rightarrow> string + unit) \<Rightarrow> (obj \<Rightarrow> string + obj) \<Rightarrow> sendRun" where
  "sendMain token optTo envTo optMessage envMessage initWebex create =
     (case token of
        None \<Rightarrow> \<lparr> created = [], printed = OutError ''WEBEX_ACCESS_TOKEN required'', exitCode = 1 \<rparr>
      | Some tok \<Rightarrow>
        if trim tok = [] then
          \<lparr> created = [], printed = OutError ''WEBEX_ACCESS_TOKEN required'', exitCode = 1 \<rparr>
        else
          let to = trim (case optTo of Some s \<Rightarrow> s
                         | None \<Rightarrow> (case envTo of Some s \<Rightarrow> s | None \<Rightarrow> []))
          in if to = [] then
               \<lparr> created = [],
                 printed = OutError ''--to / -t or WEBEX_TO required (room ID or person email)'',
                 exitCode = 1 \<rparr>
             else
               let markdown = trim (case optMessage of Some s \<Rightarrow> s
                                    | None \<Rightarrow> (case envMessage of Some s \<Rightarrow> s | None \<Rightarrow> []))
               in if markdown = [] then
                    \<lparr> created = [],
                      printed = OutError ''--message / -m, WEBEX_MESSAGE, or stdin required'',
                      exitCode = 1 \<rparr>
                  else
                    (case initWebex tok of
                       Inl msg \<Rightarrow> \<lparr> created = [], printed = OutError msg, exitCode = 1 \<rparr>
                     | Inr _ \<Rightarrow>
                         let payload =
                               (if isEmail to
                                then [(''toPersonEmail'', JStr to), (''markdown'', JStr markdown)]
                                else [(''roomId'', JStr to), (''markdown'', JStr markdown)])
                         in (case create payload of
                               Inr message \<Rightarrow>
                                 \<lparr> created = [payload],
                                   printed = OutOk (getProp message ''id'')
                                               (getProp message ''roomId'')
                                               (getProp message ''created''),
                                   exitCode = 0 \<rparr>
                             | Inl msg \<Rightarrow>
                                 \<lparr> created = [payload], printed = OutError msg, exitCode = 1 \<rparr>)))"

section \<open>Concrete inputs\<close>

text \<open>A finite part of \<open>Date.parse\<close>: four ISO-8601 instants, every other string unparsable.\<close>

definition isoParse :: "string \<Rightarrow> int option" where
  "isoParse s = map_of
     [(''2026-01-01T00:00:00.000Z'', 1767225600000),
      (''2026-01-01T01:00:00.000Z'', 1767229200000),
      (''2026-01-01T02:00:00.000Z'', 1767232800000),
      (''2100-01-01T00:00:00.000Z'', 4102444800000)] s"

text \<open>A raw room that uses the older property names and carries a stale \<open>isUnread\<close>.\<close>

definition rawRoomA :: obj where
  "rawRoomA =
     [(''id'', JStr ''R1''), (''title'', JStr ''''), (''type'', JStr ''''),
      (''lastActivity'', JStr ''2026-01-01T02:00:00.000Z''),
      (''lastSeenDate'', JStr ''yesterday''),
      (''isUnread'', JBool False)]"

text \<open>A message with all three bodies.\<close>

definition messageA :: obj where
  "messageA =
     [(''id'', JStr ''M1''), (''roomId'', JStr ''R1''), (''personId'', JStr ''P1''),
      (''personEmail'', JStr ''amy@example.com''),
      (''created'', JStr ''2026-01-01T01:00:00.000Z''),
      (''text'', JStr ''hi''), (''markdown'', JStr ''*hi*''), (''html'', JStr ''<em>hi</em>'')]"

text \<open>A message of an automated account, and a group room whose unread messages are one
  from a person and one from that account.\<close>

definition botMessage :: obj where
  "botMessage =
     [(''id'', JStr ''M2''), (''roomId'', JStr ''R2''), (''personId'', JStr ''B1''),
      (''personEmail'', JStr ''helper@webex.bot''),
      (''created'', JStr ''2026-01-01T02:00:00.000Z''),
      (''text'', JStr ''build passed'')]"

definition mixedRoom :: roomWithUnread where
  "mixedRoom =
     \<lparr> room_id = JStr ''R2'', title = JStr ''Team'', room_type = JStr ''group'',
       lastActivityDate = JStr ''2026-01-01T02:00:00.000Z'',
       lastSeenDate = JStr ''2026-01-01T00:00:00.000Z'', isUnread = True,
       unreadMessages = [messageA, botMessage], unreadMessageCount = 2, mentionedMe = False \<rparr>"

text \<open>A room whose last activity lies after the clock readings used below.\<close>

definition futureRoom :: room where
  "futureRoom =
     \<lparr> room_id = JStr ''R3'', title = JStr ''Plans'', room_type = JStr ''group'',
       lastActivityDate = JStr ''2100-01-01T00:00:00.000Z'',
       lastSeenDate = JNull, isUnread = True \<rparr>"

text \<open>A direct room without dates.\<close>

definition staleRoom :: room where
  "staleRoom =
     \<lparr> room_id = JStr ''R4'', title = JStr ''Old'', room_type = JStr ''direct'',
       lastActivityDate = JNull, lastSeenDate = JNull, isUnread = False \<rparr>"

text \<open>Two more messages of room \<open>R1\<close>, one mentioning the user \<open>U1\<close> and one written by that
  user; a provider that lists the messages of \<open>R1\<close> and fails for every other room; a second
  raw room; and a clock that reads 03:00 on 1 January 2026 at every call.\<close>

definition mentionMessage :: obj where
  "mentionMessage =
     [(''id'', JStr ''M3''), (''roomId'', JStr ''R1''), (''personId'', JStr ''P2''),
      (''personEmail'', JStr ''bob@example.com''),
      (''created'', JStr ''2026-01-01T02:00:00.000Z''),
      (''mentionedPeople'', JArr [JStr ''U1'']),
      (''text'', JStr ''ping'')]"

definition selfMessage :: obj where
  "selfMessage =
     [(''id'', JStr ''M4''), (''roomId'', JStr ''R1''), (''personId'', JStr ''U1''),
      (''personEmail'', JStr ''me@example.com''),
      (''created'', JStr ''2026-01-01T02:00:00.000Z''),
      (''text'', JStr ''on it'')]"

definition providerA :: "jsval \<Rightarrow> nat \<Rightarrow> string + response" where
  "providerA roomId n =
     (if roomId = JStr ''R1'' then Inr (RespItems [mentionMessage, selfMessage, messageA])
      else Inl ''503 Service Unavailable'')"

definition rawRoomB :: obj where
  "rawRoomB =
     [(''id'', JStr ''R2''), (''title'', JStr ''Bob''), (''type'', JStr ''direct''),
      (''lastActivityDate'', JStr ''2026-01-01T01:00:00.000Z''),
      (''lastSeenDate'', JStr ''2026-01-01T00:00:00.000Z'')]"

definition clockA :: "nat \<Rightarrow> int" where
  "clockA i = 1767236400000"

text \<open>A message that has an e-mail address and no \<open>personId\<close>, and a direct room in which it
  precedes a message of the same address that has one.\<close>

definition anonMessage :: obj where
  "anonMessage =
     [(''id'', JStr ''M5''), (''personEmail'', JStr ''amy@example.com''),
      (''created'', JStr ''2026-01-01T01:00:00.000Z''), (''text'', JStr ''hello'')]"

definition anonRoom :: roomWithUnread where
  "anonRoom =
     \<lparr> room_id = JStr ''R5'', title = JStr ''Amy'', room_type = JStr ''direct'',
       lastActivityDate = JStr ''2026-01-01T02:00:00.000Z'',
       lastSeenDate = JStr ''2026-01-01T00:00:00.000Z'', isUnread = True,
       unreadMessages = [anonMessage, messageA], unreadMessageCount = 2, mentionedMe = False \<rparr>"

text \<open>A client initialisation that succeeds, and a provider that accepts every message.\<close>

definition initOk :: "string \<Rightarrow> string + unit" where
  "initOk tok = Inr ()"

definition createOk :: "obj \<Rightarrow> string + obj" where
  "createOk payload =
     Inr ((''id'', JStr ''M9'') # (''created'', JStr ''2026-01-01T03:00:00.000Z'') # payload)"

text \<open>A message with a plain and a markdown body, and a provider that differs from the first
  one only on room \<open>R2\<close>, where it succeeds.\<close>

definition markdownMessage :: obj where
  "markdownMessage =
     [(''id'', JStr ''M7''), (''personEmail'', JStr ''bob@example.com''),
      (''updated'', JStr ''2026-01-01T02:00:00.000Z''),
      (''text'', JStr ''hi''), (''markdown'', JStr ''*hi*'')]"

definition providerB :: "jsval \<Rightarrow> nat \<Rightarrow> string + response" where
  "providerB roomId n =
     (if roomId = JStr ''R2'' then Inr (RespArray [botMessage]) else providerA roomId n)"

section \<open>Properties of objects\<close>


lemma getProp_deleteProp:
  "getProp (deleteProp k ob) k' = (if k' = k then JUndefined else getProp ob k')"
  by (induction ob) (auto simp: getProp_def deleteProp_def)

lemma keys_deleteProp: "fst ` set (deleteProp k ob) = fst ` set ob - {k}"
  by (auto simp: deleteProp_def)

lemma deleteProp_absent: "k \<notin> fst ` set ob \<Longrightarrow> deleteProp k ob = ob"
  by (induction ob) (auto simp: deleteProp_def)

section \<open>Properties of the slimmer\<close>

lemma keys_slimMessage:
  "fst ` set (slimMessage m) =
     fst ` set m - {''roomId'', ''personId'', ''roomType'', ''created'', ''updated''}
       - (if \<not> nullish (getProp m ''markdown'') \<or> \<not> nullish (getProp m ''html'')
          then {''text''} else {})
       - (if \<not> nullish (getProp m ''html'') then {''markdown''} else {})"
  by (auto simp: slimMessage_def Let_def keys_deleteProp getProp_deleteProp)

lemma getProp_slim_html: "getProp (slimMessage m) ''html'' = getProp m ''html''"
  by (simp add: slimMessage_def Let_def getProp_deleteProp)

lemma getProp_slim_markdown:
  "getProp (slimMessage m) ''markdown'' =
     (if \<not> nullish (getProp m ''html'') then JUndefined else getProp m ''markdown'')"
  by (simp add: slimMessage_def Let_def getProp_deleteProp)

lemma slimMessage_twice: "slimMessage (slimMessage m) = slimMessage m"
proof -
  let ?s = "slimMessage m"
  have k: "deleteProp k ?s = ?s"
    if "k \<in> {''roomId'', ''personId'', ''roomType'', ''created'', ''updated''}" for k
    using that by (intro deleteProp_absent) (auto simp: keys_slimMessage)
  have t: "deleteProp ''text'' ?s = ?s"
    if "\<not> nullish (getProp m ''markdown'') \<or> \<not> nullish (getProp m ''html'')"
    using that by (intro deleteProp_absent) (auto simp: keys_slimMessage)
  have md: "deleteProp ''markdown'' ?s = ?s" if "\<not> nullish (getProp m ''html'')"
    using that by (intro deleteProp_absent) (auto simp: keys_slimMessage)
  show ?thesis
  proof (cases "nullish (getProp m ''html'')")
    case True
    show ?thesis
    proof (cases "nullish (getProp m ''markdown'')")
      case True
      with \<open>nullish (getProp m ''html'')\<close> show ?thesis
        by (subst (1) slimMessage_def)
           (simp add: Let_def k getProp_deleteProp getProp_slim_html getProp_slim_markdown)
    next
      case False
      with \<open>nullish (getProp m ''html'')\<close> show ?thesis
        by (subst (1) slimMessage_def)
           (simp add: Let_def k t getProp_deleteProp getProp_slim_html getProp_slim_markdown)
    qed
  next
    case False
    then show ?thesis
      by (subst (1) slimMessage_def)
         (simp add: Let_def k t md getProp_deleteProp getProp_slim_html getProp_slim_markdown
            nullish_def)
  qed
qed

section \<open>Properties of the filters and of the resolver\<close>

lemma endsWith_suffix: "endsWith s suf = suffix suf s"
proof
  assume "endsWith s suf"
  then have "s = take (length s - length suf) s @ suf"
    by (metis append_take_drop_id endsWith_def)
  then show "suffix suf s"
    by (metis suffixI)
next
  assume "suffix suf s"
  then obtain zs where "s = zs @ suf"
    by (auto simp: suffix_def)
  then show "endsWith s suf"
    by (simp add: endsWith_def)
qed

lemma roomTypesHas_iff: "roomTypesHas v = (v \<in> {JStr ''direct'', JStr ''group''})"
  by (auto simp: roomTypesHas_def ROOM_TYPES_def split: jsval.splits)

lemma fromBot_iff:
  "fromBot m = suffix ''@webex.bot'' (toStringJS (coalesce (getProp m ''personEmail'') (JStr '''')))"
  by (simp add: fromBot_def endsWith_suffix BOT_EMAIL_SUFFIX_def)

lemma filterInLast_subset: "set (filterInLast clock i dp hours rs) \<subseteq> set rs"
  by (induction rs arbitrary: i) auto

lemma filterInLast_const:
  "filterInLast (\<lambda>_. now) i dp hours rs = filter (\<lambda>r. inLastXhours now dp r hours) rs"
  by (induction rs arbitrary: i) auto

lemma normalized_types:
  assumes "r \<in> set (normalized clock dp hours raws)"
  shows "roomTypesHas (room_type r)"
proof -
  from assms have "r \<in> set (filterInLast clock 0 dp hours
      (filter (\<lambda>r. roomTypesHas (room_type r)) (map (normalizeRoom dp) raws)))"
    by (simp add: normalized_def)
  then have "r \<in> set (filter (\<lambda>r. roomTypesHas (room_type r)) (map (normalizeRoom dp) raws))"
    using filterInLast_subset by blast
  then show ?thesis by simp
qed

lemma strictEq_refl_str: "strictEq v (JStr u) = (v = JStr u)"
  by (cases v) auto

lemma includesJS_iff: "includesJS xs v = (\<exists>x \<in> set xs. strictEq x v)"
  by (simp add: includesJS_def list_ex_iff)

lemma mentions_iff:
  "(case getProp m ''mentionedPeople'' of JArr people \<Rightarrow> includesJS people meId | _ \<Rightarrow> False) =
     (\<exists>ps. getProp m ''mentionedPeople'' = JArr ps \<and> (\<exists>p \<in> set ps. strictEq p meId))"
  by (cases "getProp m ''mentionedPeople''") (simp_all add: includesJS_iff)

lemma roomMentionsMe_iff:
  "roomMentionsMe ms meId =
     (truthy meId \<and> (\<exists>m \<in> set ms. \<exists>ps. getProp m ''mentionedPeople'' = JArr ps
        \<and> (\<exists>p \<in> set ps. strictEq p meId)))"
  by (simp add: roomMentionsMe_def list_ex_iff mentions_iff)

lemma isUnreadMessage_iff:
  "isUnreadMessage dp m ts meId =
     (ts < toTs dp (getProp m ''created'') \<and> \<not> strictEq (getProp m ''personId'') meId)"
  by (auto simp: isUnreadMessage_def Let_def)

lemma withUnread_sel [simp]:
  "unreadMessages (withUnread r ms n b) = ms"
  "unreadMessageCount (withUnread r ms n b) = n"
  "mentionedMe (withUnread r ms n b) = b"
  "room_type (withUnread r ms n b) = room_type r"
  "room_id (withUnread r ms n b) = room_id r"
  by (simp_all add: withUnread_def)

lemma attachUnread_ok:
  assumes "messagesList (room_id room) MESSAGES_PAGE_SIZE = Inr resp"
  shows "attachUnread dp messagesList meId room =
     (let ms = sort_key (\<lambda>m. toTs dp (getProp m ''created''))
                 (filter (\<lambda>m. isUnreadMessage dp m (toTs dp (lastSeenDate room)) meId)
                    (extractItems resp))
      in withUnread room ms (length ms) (roomMentionsMe ms meId))"
  using assms by (simp add: attachUnread_def getUnreadMessages_def Let_def)

lemma attachUnread_failed:
  assumes "messagesList (room_id room) MESSAGES_PAGE_SIZE = Inl err"
  shows "attachUnread dp messagesList meId room = withUnread room [] 0 False"
  using assms by (simp add: attachUnread_def getUnreadMessages_def)

section \<open>Properties of the people index\<close>

lemma truthy_coalesce_null: "truthy (coalesce v JNull) = truthy v"
  by (cases v) (simp_all add: coalesce_def nullish_def)

lemma coalesce_null_truthy: "truthy v \<Longrightarrow> coalesce v JNull = v"
  by (cases v) (simp_all add: coalesce_def nullish_def)

lemma recordPerson_lookup:
  "map_of (recordPerson p m) k =
     (case map_of p k of Some v \<Rightarrow> Some v
      | None \<Rightarrow> if personKey k m then Some (getProp m ''personId'') else None)"
  by (auto simp: recordPerson_def Let_def personKey_def truthy_coalesce_null
        coalesce_null_truthy map_add_def split: option.splits)

lemma recordPerson_distinct:
  "distinct (map fst p) \<Longrightarrow> distinct (map fst (recordPerson p m))"
  by (auto simp: recordPerson_def Let_def map_of_eq_None_iff)

lemma recordPerson_skip:
  "\<not> truthy (getProp m ''personEmail'') \<or> \<not> truthy (getProp m ''personId'')
     \<Longrightarrow> recordPerson p m = p"
  by (auto simp: recordPerson_def Let_def truthy_coalesce_null)

lemma peopleOfMessages_lookup:
  "map_of (peopleOfMessages p ms) k =
     (case map_of p k of Some v \<Rightarrow> Some v
      | None \<Rightarrow> (case find (personKey k) ms of None \<Rightarrow> None
                 | Some m \<Rightarrow> Some (getProp m ''personId'')))"
  by (induction ms arbitrary: p) (auto simp: recordPerson_lookup split: option.splits)

lemma peopleOfMessages_distinct:
  "distinct (map fst p) \<Longrightarrow> distinct (map fst (peopleOfMessages p ms))"
  by (induction ms arbitrary: p) (auto simp: recordPerson_distinct)

lemma peopleOfMessages_append:
  "peopleOfMessages p (xs @ ys) = peopleOfMessages (peopleOfMessages p xs) ys"
  by (induction xs arbitrary: p) auto

lemma peopleOfRooms_concat:
  "peopleOfRooms p rs = peopleOfMessages p (concat (map unreadMessages rs))"
  by (induction rs arbitrary: p) (auto simp: peopleOfMessages_append)

section \<open>Properties of the number parser\<close>

lemma digitsValue_append:
  "digitsValue acc (xs @ ys) = digitsValue (digitsValue acc xs) ys"
  by (induction xs arbitrary: acc) auto

lemma of_char_digit: "d < 10 \<Longrightarrow> (of_char (char_of (48 + d :: nat)) :: nat) = 48 + d"
  by simp

lemma of_char_digit_int: "d < 10 \<Longrightarrow> (of_char (char_of (48 + d :: nat)) :: int) = 48 + int d"
proof -
  assume "d < 10"
  then have "(of_char (char_of (48 + d :: nat)) :: nat) = 48 + d" by simp
  then have "int (of_char (char_of (48 + d :: nat))) = int (48 + d)" by simp
  then show ?thesis by (simp add: of_char_def)
qed

lemma isDigit_digit: "d < 10 \<Longrightarrow> isDigit (char_of (48 + d :: nat))"
  by (simp add: isDigit_def)

lemma notWhite_digit: "d < 10 \<Longrightarrow> \<not> isWhiteSpace (char_of (48 + d :: nat))"
  by (auto simp: isWhiteSpace_def)

lemma digitsValue_decimalString: "digitsValue 0 (decimalString n) = int n"
proof (induction n rule: decimalString.induct)
  case (1 n)
  show ?case
  proof (cases "n < 10")
    case True
    then show ?thesis
      by (subst decimalString.simps) (simp add: of_char_digit_int)
  next
    case False
    have "n mod 10 < 10" by simp
    then have d: "(of_char (char_of (48 + n mod 10)) :: int) = 48 + int (n mod 10)"
      by (rule of_char_digit_int)
    from False 1 have "digitsValue 0 (decimalString (n div 10)) = int (n div 10)"
      by simp
    with False d show ?thesis
      by (subst decimalString.simps) (simp add: digitsValue_append zdiv_int zmod_int)
  qed
qed

lemma decimalString_digits: "list_all isDigit (decimalString n)"
proof (induction n rule: decimalString.induct)
  case (1 n)
  show ?case
  proof (cases "n < 10")
    case True
    then show ?thesis
      by (subst decimalString.simps) (simp add: isDigit_digit)
  next
    case False
    have "n mod 10 < 10" by simp
    then have "isDigit (char_of (48 + n mod 10))" by (rule isDigit_digit)
    with False 1 show ?thesis
      by (subst decimalString.simps) simp
  qed
qed

lemma decimalString_nonempty: "decimalString n \<noteq> []"
  by (subst decimalString.simps) simp

lemma isDigit_not_white: "isDigit c \<Longrightarrow> \<not> isWhiteSpace c"
  by (auto simp: isDigit_def isWhiteSpace_def)

lemma isDigit_not_sign: "isDigit c \<Longrightarrow> c \<noteq> CHR ''-'' \<and> c \<noteq> CHR ''+''"
  by (auto simp: isDigit_def)

lemma parseInt10_digits:
  assumes "ds \<noteq> []" "list_all isDigit ds"
  shows "parseInt10 ds =
           (if digitsValue 0 ds \<ge> DBL_OVERFLOW then NumInf else Num (digitsValue 0 ds))"
proof -
  from assms obtain c cs where ds: "ds = c # cs" and c: "isDigit c"
    by (cases ds) auto
  have w: "dropWhile isWhiteSpace ds = ds"
    using ds c isDigit_not_white by simp
  have s: "hd ds \<noteq> CHR ''-''" "hd ds \<noteq> CHR ''+''"
    using ds c isDigit_not_sign by auto
  have t: "takeWhile isDigit ds = ds"
    using assms(2) by (simp add: list_all_iff)
  show ?thesis
    using assms(1) s by (simp add: parseInt10_def Let_def w t)
qed

lemma parseInt10_minus_digits:
  assumes "ds \<noteq> []" "list_all isDigit ds"
  shows "parseInt10 (CHR ''-'' # ds) =
           (if digitsValue 0 ds \<ge> DBL_OVERFLOW then NumInf else Num (- digitsValue 0 ds))"
proof -
  have w: "\<not> isWhiteSpace CHR ''-''"
    by (simp add: isWhiteSpace_def)
  have t: "takeWhile isDigit ds = ds"
    using assms(2) by (simp add: list_all_iff)
  show ?thesis
    using assms(1) w by (simp add: parseInt10_def Let_def t)
qed

lemma parseInt10_decimalString:
  "parseInt10 (decimalString n) = (if int n \<ge> DBL_OVERFLOW then NumInf else Num (int n))"
  using parseInt10_digits [OF decimalString_nonempty decimalString_digits, of n]
  by (simp add: digitsValue_decimalString)

lemma parseInt10_minus_decimalString:
  "parseInt10 (CHR ''-'' # decimalString n) =
     (if int n \<ge> DBL_OVERFLOW then NumInf else Num (- int n))"
  using parseInt10_minus_digits [OF decimalString_nonempty decimalString_digits, of n]
  by (simp add: digitsValue_decimalString)

lemma parseInt10_Nil: "parseInt10 [] = NumNaN"
  by (simp add: parseInt10_def)

lemma getActivityHours_raw:
  "getActivityHours cli env =
     (case (case cli of Some s \<Rightarrow> Some s | None \<Rightarrow> env) of
        None \<Rightarrow> 24
      | Some s \<Rightarrow> (case parseInt10 s of
                     Num n \<Rightarrow> if 1 \<le> n then min n 720 else 24
                   | _ \<Rightarrow> 24))"
  by (auto simp: getActivityHours_def Let_def DEFAULT_ACTIVITY_HOURS_def MIN_ACTIVITY_HOURS_def
        MAX_ACTIVITY_HOURS_def parseInt10_Nil split: option.splits jsnum.splits)

lemma dec1000: "decimalString 1000 = ''1000''"
  by code_simp

section \<open>Properties of trimming\<close>

lemma dropWhile_keeps: "x \<in> set xs \<Longrightarrow> \<not> P x \<Longrightarrow> x \<in> set (dropWhile P xs)"
  by (induction xs) auto

lemma trim_keeps: "\<not> isWhiteSpace c \<Longrightarrow> (c \<in> set (trim s)) = (c \<in> set s)"
proof
  assume "c \<in> set (trim s)"
  then have "c \<in> set (dropWhile isWhiteSpace (rev (dropWhile isWhiteSpace s)))"
    by (simp add: trim_def)
  then have "c \<in> set (rev (dropWhile isWhiteSpace s))"
    using set_dropWhileD by fastforce
  then show "c \<in> set s"
    using set_dropWhileD by fastforce
next
  assume n: "\<not> isWhiteSpace c" and "c \<in> set s"
  then have "c \<in> set (dropWhile isWhiteSpace s)"
    by (simp add: dropWhile_keeps)
  then have "c \<in> set (rev (dropWhile isWhiteSpace s))"
    by simp
  with n have "c \<in> set (dropWhile isWhiteSpace (rev (dropWhile isWhiteSpace s)))"
    by (simp add: dropWhile_keeps)
  then show "c \<in> set (trim s)"
    by (simp add: trim_def)
qed

lemma at_not_white: "\<not> isWhiteSpace CHR ''@''"
  by (simp add: isWhiteSpace_def)

lemma isEmail_trim: "isEmail (trim s) = (CHR ''@'' \<in> set s)"
  by (simp add: isEmail_def trim_keeps at_not_white)

section \<open>The concrete rooms, normalized\<close>

lemma normA: "normalizeRoom isoParse rawRoomA =
  \<lparr> room_id = JStr ''R1'', title = JStr ''R1'', room_type = JStr ''group'',
    lastActivityDate = JStr ''2026-01-01T02:00:00.000Z'', lastSeenDate = JStr ''yesterday'',
    isUnread = True \<rparr>"
  by (simp add: normalizeRoom_def rawRoomA_def getProp_def orJS_def toTs_def isoParse_def)

lemma normB: "normalizeRoom isoParse rawRoomB =
  \<lparr> room_id = JStr ''R2'', title = JStr ''Bob'', room_type = JStr ''direct'',
    lastActivityDate = JStr ''2026-01-01T01:00:00.000Z'',
    lastSeenDate = JStr ''2026-01-01T00:00:00.000Z'',
    isUnread = True \<rparr>"
  by (simp add: normalizeRoom_def rawRoomB_def getProp_def orJS_def toTs_def isoParse_def)

lemma unreadAB:
  "unreadOf (normalized clockA isoParse 24 [rawRoomA, rawRoomB]) =
     [normalizeRoom isoParse rawRoomA, normalizeRoom isoParse rawRoomB]"
  by (simp add: unreadOf_def normalized_def normA normB roomTypesHas_def ROOM_TYPES_def
        inLastXhours_def clockA_def toTs_def isoParse_def)

section \<open>Claims\<close>

text \<open>
  C1 (as amended). The Bot/Noise Filter keeps the rooms, in their order, whose type is
  \<open>direct\<close> or \<open>group\<close> and none of whose unread messages is from a bot account. So a
  room that reaches the filter is dropped if and only if its type is not an allowed type
  or at least one of its retained unread messages has a \<open>personEmail\<close> whose string ends
  with \<open>@webex.bot\<close>; a message without \<open>personEmail\<close> is not from a bot, and a room
  of an allowed type with no unread message is kept.
\<close>

theorem botNoiseFilter_any_bot_message:
  "botNoiseFilter rs =
     filter (\<lambda>r. room_type r \<in> {JStr ''direct'', JStr ''group''}
                \<and> \<not> (\<exists>m \<in> set (unreadMessages r). fromBot m)) rs
   \<and> (r \<in> set rs \<longrightarrow>
        (r \<notin> set (botNoiseFilter rs) \<longleftrightarrow>
           room_type r \<notin> {JStr ''direct'', JStr ''group''}
           \<or> (\<exists>m \<in> set (unreadMessages r). fromBot m)))
   \<and> fromBot m = suffix ''@webex.bot'' (toStringJS (coalesce (getProp m ''personEmail'') (JStr '''')))
   \<and> (getProp m ''personEmail'' = JStr e \<longrightarrow> fromBot m = suffix ''@webex.bot'' e)
   \<and> (nullish (getProp m ''personEmail'') \<longrightarrow> \<not> fromBot m)
   \<and> (r \<in> set rs \<and> room_type r \<in> {JStr ''direct'', JStr ''group''} \<and> unreadMessages r = []
        \<longrightarrow> r \<in> set (botNoiseFilter rs))"
proof -
  have a: "botNoiseFilter rs =
     filter (\<lambda>r. room_type r \<in> {JStr ''direct'', JStr ''group''}
                \<and> \<not> (\<exists>m \<in> set (unreadMessages r). fromBot m)) rs"
    by (auto simp: botNoiseFilter_def isOutputRoom_def roomHasNoBotMessages_def roomTypesHas_iff
          list_ex_iff intro: filter_cong)
  have b: "getProp m ''personEmail'' = JStr e \<longrightarrow> fromBot m = suffix ''@webex.bot'' e"
    by (simp add: fromBot_iff coalesce_def nullish_def)
  have c: "nullish (getProp m ''personEmail'') \<longrightarrow> \<not> fromBot m"
    by (simp add: fromBot_iff coalesce_def suffix_def)
  show ?thesis
    unfolding a using b c fromBot_iff [of m] by auto
qed


theorem botNoiseFilter_any_bot_message_witness:
  "mixedRoom \<in> set [mixedRoom]
   \<and> getProp botMessage ''personEmail'' = JStr ''helper@webex.bot''
   \<and> fromBot botMessage
   \<and> mixedRoom \<notin> set (botNoiseFilter [mixedRoom])
   \<and> nullish (getProp [(''id'', JStr ''M6'')] ''personEmail'')
   \<and> \<not> fromBot [(''id'', JStr ''M6'')]
   \<and> unreadMessages (withUnread staleRoom [] 0 False) = []
   \<and> withUnread staleRoom [] 0 False \<in> set (botNoiseFilter [withUnread staleRoom [] 0 False])"
proof -
  have h: "mixedRoom \<in> set [mixedRoom]" by simp
  have t: "room_type mixedRoom \<in> {JStr ''direct'', JStr ''group''}"
    by (simp add: mixedRoom_def)
  have e: "getProp botMessage ''personEmail'' = JStr ''helper@webex.bot''"
    by (simp add: botMessage_def getProp_def)
  have b: "fromBot botMessage"
    by (simp add: fromBot_def e coalesce_def nullish_def endsWith_def BOT_EMAIL_SUFFIX_def)
  have m: "botMessage \<in> set (unreadMessages mixedRoom)"
    by (simp add: mixedRoom_def)
  have n: "nullish (getProp [(''id'', JStr ''M6'')] ''personEmail'')"
    by (simp add: getProp_def nullish_def)
  have q: "room_type (withUnread staleRoom [] 0 False) \<in> {JStr ''direct'', JStr ''group''}"
    by (simp add: staleRoom_def)
  have A: "mixedRoom \<notin> set (botNoiseFilter [mixedRoom])"
    using botNoiseFilter_any_bot_message
      [of "[mixedRoom]" mixedRoom botMessage "''helper@webex.bot''"] h t b m
    by blast
  have q1: "withUnread staleRoom [] 0 False \<in> set [withUnread staleRoom [] 0 False]"
    by simp
  have q2: "unreadMessages (withUnread staleRoom [] 0 False) = []"
    by simp
  note T = botNoiseFilter_any_bot_message
      [of "[withUnread staleRoom [] 0 False]" "withUnread staleRoom [] 0 False"
          "[(''id'', JStr ''M6'')]" "[]"]
  have B1: "\<not> fromBot [(''id'', JStr ''M6'')]"
    using T n by blast
  have B2: "withUnread staleRoom [] 0 False \<in> set (botNoiseFilter [withUnread staleRoom [] 0 False])"
    using T q q1 q2 by blast
  from h e b A n B1 q2 B2 show ?thesis by blast
qed

text \<open>
  The claim as stated (dropped only when every unread message is from a bot; a room with
  an unread message from a person is retained) fails on a group room with one message
  from a person and one from a bot account: the filter drops it.
\<close>

theorem botNoiseFilter_every_bot_counterexample:
  "botNoiseFilter [mixedRoom] = []
   \<and> room_type mixedRoom = JStr ''group''
   \<and> unreadMessages mixedRoom = [messageA, botMessage]
   \<and> getProp messageA ''personEmail'' = JStr ''amy@example.com''
   \<and> \<not> endsWith ''amy@example.com'' ''@webex.bot''"
  by (simp add: botNoiseFilter_def isOutputRoom_def roomHasNoBotMessages_def roomTypesHas_def
        ROOM_TYPES_def mixedRoom_def messageA_def botMessage_def fromBot_def getProp_def
        coalesce_def nullish_def endsWith_def BOT_EMAIL_SUFFIX_def)



text \<open>
  C3. When the message fetch for a room succeeds, the unread messages attached to the room
  are exactly the fetched messages (with their multiplicity) whose \<open>created\<close>
  timestamp is strictly greater than the timestamp of the room's \<open>lastSeenDate\<close> and
  whose \<open>personId\<close> differs from the current user's id, sorted ascending by \<open>created\<close>;
  a message whose \<open>personId\<close> is the current user's id is never among them; the count is
  their number; and, the current user having an id (a truthy one), \<open>mentionedMe\<close> is true
  if and only if the \<open>mentionedPeople\<close> array of some retained unread message contains
  that id.
\<close>

theorem attachUnread_unread_messages:
  assumes "messagesList (room_id room) MESSAGES_PAGE_SIZE = Inr resp"
  shows "mset (unreadMessages (attachUnread dp messagesList meId room)) =
           filter_mset (\<lambda>m. toTs dp (lastSeenDate room) < toTs dp (getProp m ''created'')
                            \<and> \<not> strictEq (getProp m ''personId'') meId)
             (mset (extractItems resp))
       \<and> sorted (map (\<lambda>m. toTs dp (getProp m ''created''))
                    (unreadMessages (attachUnread dp messagesList meId room)))
       \<and> (\<forall>m. strictEq (getProp m ''personId'') meId \<longrightarrow>
              m \<notin> set (unreadMessages (attachUnread dp messagesList meId room)))
       \<and> unreadMessageCount (attachUnread dp messagesList meId room) =
           length (unreadMessages (attachUnread dp messagesList meId room))
       \<and> (truthy meId \<longrightarrow>
            mentionedMe (attachUnread dp messagesList meId room) =
              (\<exists>m \<in> set (unreadMessages (attachUnread dp messagesList meId room)).
                 \<exists>ps. getProp m ''mentionedPeople'' = JArr ps \<and> (\<exists>p \<in> set ps. strictEq p meId)))"
proof -
  let ?ms = "sort_key (\<lambda>m. toTs dp (getProp m ''created''))
               (filter (\<lambda>m. isUnreadMessage dp m (toTs dp (lastSeenDate room)) meId)
                  (extractItems resp))"
  have R: "attachUnread dp messagesList meId room =
             withUnread room ?ms (length ?ms) (roomMentionsMe ?ms meId)"
    using assms by (simp add: attachUnread_ok Let_def)
  have a: "mset ?ms = filter_mset (\<lambda>m. toTs dp (lastSeenDate room) < toTs dp (getProp m ''created'')
                            \<and> \<not> strictEq (getProp m ''personId'') meId)
             (mset (extractItems resp))"
    by (simp add: isUnreadMessage_iff)
  have b: "sorted (map (\<lambda>m. toTs dp (getProp m ''created'')) ?ms)"
    by simp
  have c: "m \<notin> set ?ms" if "strictEq (getProp m ''personId'') meId" for m
    using that by (simp add: isUnreadMessage_iff)
  have d: "roomMentionsMe ?ms meId =
     (\<exists>m \<in> set ?ms. \<exists>ps. getProp m ''mentionedPeople'' = JArr ps \<and> (\<exists>p \<in> set ps. strictEq p meId))"
    if "truthy meId"
    using that by (simp only: roomMentionsMe_iff simp_thms)
  show ?thesis
    unfolding R withUnread_sel
  proof (intro conjI allI impI)
    show "mset ?ms = filter_mset (\<lambda>m. toTs dp (lastSeenDate room) < toTs dp (getProp m ''created'')
                            \<and> \<not> strictEq (getProp m ''personId'') meId)
             (mset (extractItems resp))"
      by (rule a)
    show "sorted (map (\<lambda>m. toTs dp (getProp m ''created'')) ?ms)"
      by (rule b)
    show "m \<notin> set ?ms" if "strictEq (getProp m ''personId'') meId" for m
      using that by (rule c)
    show "length ?ms = length ?ms"
      by (rule refl)
    show "roomMentionsMe ?ms meId =
       (\<exists>m \<in> set ?ms. \<exists>ps. getProp m ''mentionedPeople'' = JArr ps \<and> (\<exists>p \<in> set ps. strictEq p meId))"
      if "truthy meId"
      using that by (rule d)
  qed
qed

theorem attachUnread_unread_messages_witness:
  "providerA (room_id (normalizeRoom isoParse rawRoomA)) MESSAGES_PAGE_SIZE
     = Inr (RespItems [mentionMessage, selfMessage, messageA])
   \<and> truthy (JStr ''U1'')
   \<and> unreadMessages (attachUnread isoParse providerA (JStr ''U1'') (normalizeRoom isoParse rawRoomA))
       = [messageA, mentionMessage]
   \<and> selfMessage \<notin> set (unreadMessages
         (attachUnread isoParse providerA (JStr ''U1'') (normalizeRoom isoParse rawRoomA)))
   \<and> mentionedMe (attachUnread isoParse providerA (JStr ''U1'') (normalizeRoom isoParse rawRoomA))"
proof -
  let ?r = "normalizeRoom isoParse rawRoomA"
  have h: "providerA (room_id ?r) MESSAGES_PAGE_SIZE
     = Inr (RespItems [mentionMessage, selfMessage, messageA])"
    by (simp add: normA providerA_def)
  have t: "truthy (JStr ''U1'')" by simp
  have k: "toTs isoParse (getProp mentionMessage ''created'') = 1767232800000"
    "toTs isoParse (getProp selfMessage ''created'') = 1767232800000"
    "toTs isoParse (getProp messageA ''created'') = 1767229200000"
    "toTs isoParse (lastSeenDate ?r) = 0"
    by (simp_all add: normA mentionMessage_def selfMessage_def messageA_def getProp_def toTs_def
          isoParse_def)
  have p: "getProp mentionMessage ''personId'' = JStr ''P2''"
    "getProp selfMessage ''personId'' = JStr ''U1''"
    "getProp messageA ''personId'' = JStr ''P1''"
    by (simp_all add: mentionMessage_def selfMessage_def messageA_def getProp_def)
  have u: "unreadMessages (attachUnread isoParse providerA (JStr ''U1'') ?r)
       = [messageA, mentionMessage]"
    by (simp add: attachUnread_ok [where resp = "RespItems [mentionMessage, selfMessage, messageA]"]
          h isUnreadMessage_iff k p Let_def)
  have mp: "getProp mentionMessage ''mentionedPeople'' = JArr [JStr ''U1'']"
    by (simp add: mentionMessage_def getProp_def)
  have s: "strictEq (getProp selfMessage ''personId'') (JStr ''U1'')"
    by (simp add: p)
  from attachUnread_unread_messages [where messagesList = providerA and room = "?r"
      and resp = "RespItems [mentionMessage, selfMessage, messageA]" and dp = isoParse
      and meId = "JStr ''U1''"] t u mp s h
  show ?thesis
    by auto
qed

text \<open>
  C4. If the message fetch for one of the unread rooms of \<open>main\<close> fails, the result has
  as many rooms as before, and at the place of that room stands the room with
  \<open>unreadMessages = []\<close>, \<open>unreadMessageCount = 0\<close> and \<open>mentionedMe = false\<close>. The
  result for any room depends only on the provider's answer for that room, so the other
  rooms' results are what they are without the failure. The degraded room passes the
  Bot/Noise Filter.
\<close>

theorem fetch_failure_degrades_room:
  assumes "unreadRooms = unreadOf (normalized clock dp hours rawRooms)"
    and "i < length unreadRooms"
    and "messagesList (room_id (unreadRooms ! i)) MESSAGES_PAGE_SIZE = Inl err"
  shows "length (attachUnreadMessages dp messagesList unreadRooms meId) = length unreadRooms
       \<and> attachUnreadMessages dp messagesList unreadRooms meId ! i
           = withUnread (unreadRooms ! i) [] 0 False
       \<and> unreadMessages (attachUnreadMessages dp messagesList unreadRooms meId ! i) = []
       \<and> unreadMessageCount (attachUnreadMessages dp messagesList unreadRooms meId ! i) = 0
       \<and> \<not> mentionedMe (attachUnreadMessages dp messagesList unreadRooms meId ! i)
       \<and> (\<forall>j other. j < length unreadRooms \<and>
             other (room_id (unreadRooms ! j)) MESSAGES_PAGE_SIZE
               = messagesList (room_id (unreadRooms ! j)) MESSAGES_PAGE_SIZE \<longrightarrow>
             attachUnreadMessages dp other unreadRooms meId ! j
               = attachUnreadMessages dp messagesList unreadRooms meId ! j)
       \<and> attachUnreadMessages dp messagesList unreadRooms meId ! i
           \<in> set (botNoiseFilter (attachUnreadMessages dp messagesList unreadRooms meId))"
proof -
  let ?out = "attachUnreadMessages dp messagesList unreadRooms meId"
  have len: "length ?out = length unreadRooms"
    by (simp add: attachUnreadMessages_def)
  have at: "?out ! i = withUnread (unreadRooms ! i) [] 0 False"
    using assms(2,3) by (simp add: attachUnreadMessages_def attachUnread_failed)
  have indep: "attachUnreadMessages dp other unreadRooms meId ! j = ?out ! j"
    if "j < length unreadRooms"
      "other (room_id (unreadRooms ! j)) MESSAGES_PAGE_SIZE
         = messagesList (room_id (unreadRooms ! j)) MESSAGES_PAGE_SIZE" for j other
    using that by (simp add: attachUnreadMessages_def attachUnread_def getUnreadMessages_def)
  have "unreadRooms ! i \<in> set (normalized clock dp hours rawRooms)"
    using assms(1,2) nth_mem [of i unreadRooms] by (auto simp: unreadOf_def)
  then have ty: "roomTypesHas (room_type (unreadRooms ! i))"
    by (rule normalized_types)
  have mem: "?out ! i \<in> set ?out"
    using assms(2) len by simp
  have kept: "?out ! i \<in> set (botNoiseFilter ?out)"
    using mem ty unfolding at
    by (simp add: botNoiseFilter_def isOutputRoom_def roomHasNoBotMessages_def)
  have e: "unreadMessages (?out ! i) = []" "unreadMessageCount (?out ! i) = 0"
    "\<not> mentionedMe (?out ! i)"
    unfolding at by simp_all
  show ?thesis
  proof (intro conjI allI impI)
    show "length ?out = length unreadRooms" by (rule len)
    show "?out ! i = withUnread (unreadRooms ! i) [] 0 False" by (rule at)
    show "unreadMessages (?out ! i) = []" by (rule e)
    show "unreadMessageCount (?out ! i) = 0" by (rule e)
    show "\<not> mentionedMe (?out ! i)" by (rule e)
    show "attachUnreadMessages dp other unreadRooms meId ! j = ?out ! j"
      if "j < length unreadRooms \<and>
          other (room_id (unreadRooms ! j)) MESSAGES_PAGE_SIZE
            = messagesList (room_id (unreadRooms ! j)) MESSAGES_PAGE_SIZE" for j other
      using that indep by blast
    show "?out ! i \<in> set (botNoiseFilter ?out)" by (rule kept)
  qed
qed

theorem fetch_failure_degrades_room_witness:
  "unreadOf (normalized clockA isoParse 24 [rawRoomA, rawRoomB]) =
     [normalizeRoom isoParse rawRoomA, normalizeRoom isoParse rawRoomB]
   \<and> providerA (JStr ''R2'') MESSAGES_PAGE_SIZE = Inl ''503 Service Unavailable''
   \<and> length (attachUnreadMessages isoParse providerA
        (unreadOf (normalized clockA isoParse 24 [rawRoomA, rawRoomB])) (JStr ''U1'')) = 2
   \<and> unreadMessages (attachUnreadMessages isoParse providerA
        (unreadOf (normalized clockA isoParse 24 [rawRoomA, rawRoomB])) (JStr ''U1'') ! 1) = []
   \<and> attachUnreadMessages isoParse providerA
        (unreadOf (normalized clockA isoParse 24 [rawRoomA, rawRoomB])) (JStr ''U1'') ! 1
      \<in> set (botNoiseFilter (attachUnreadMessages isoParse providerA
        (unreadOf (normalized clockA isoParse 24 [rawRoomA, rawRoomB])) (JStr ''U1'')))
   \<and> providerB (JStr ''R2'') MESSAGES_PAGE_SIZE = Inr (RespArray [botMessage])
   \<and> providerB (JStr ''R1'') MESSAGES_PAGE_SIZE = providerA (JStr ''R1'') MESSAGES_PAGE_SIZE
   \<and> attachUnreadMessages isoParse providerB
        (unreadOf (normalized clockA isoParse 24 [rawRoomA, rawRoomB])) (JStr ''U1'') ! 0
      = attachUnreadMessages isoParse providerA
        (unreadOf (normalized clockA isoParse 24 [rawRoomA, rawRoomB])) (JStr ''U1'') ! 0"
proof -
  let ?u = "unreadOf (normalized clockA isoParse 24 [rawRoomA, rawRoomB])"
  have a: "?u = unreadOf (normalized clockA isoParse 24 [rawRoomA, rawRoomB])"
    by (rule refl)
  have b: "1 < length ?u"
    by (simp add: unreadAB)
  have c: "providerA (room_id (?u ! 1)) MESSAGES_PAGE_SIZE = Inl ''503 Service Unavailable''"
    by (simp add: unreadAB normB providerA_def)
  have d: "providerA (JStr ''R2'') MESSAGES_PAGE_SIZE = Inl ''503 Service Unavailable''"
    by (simp add: providerA_def)
  have e: "length ?u = 2"
    by (simp add: unreadAB)
  note F = fetch_failure_degrades_room [where unreadRooms = "?u" and clock = clockA
      and dp = isoParse and hours = 24 and rawRooms = "[rawRoomA, rawRoomB]" and i = 1
      and messagesList = providerA and err = "''503 Service Unavailable''"
      and meId = "JStr ''U1''", OF a b c]
  have g1: "length (attachUnreadMessages isoParse providerA ?u (JStr ''U1'')) = length ?u"
    using F by (elim conjE)
  have g3: "unreadMessages (attachUnreadMessages isoParse providerA ?u (JStr ''U1'') ! 1) = []"
    using F by (elim conjE)
  have g7: "attachUnreadMessages isoParse providerA ?u (JStr ''U1'') ! 1
      \<in> set (botNoiseFilter (attachUnreadMessages isoParse providerA ?u (JStr ''U1'')))"
    using F by (elim conjE)
  have p2: "providerB (JStr ''R2'') MESSAGES_PAGE_SIZE = Inr (RespArray [botMessage])"
    by (simp add: providerB_def)
  have p1: "providerB (JStr ''R1'') MESSAGES_PAGE_SIZE = providerA (JStr ''R1'') MESSAGES_PAGE_SIZE"
    by (simp add: providerB_def)
  have p0: "0 < length ?u \<and>
      providerB (room_id (?u ! 0)) MESSAGES_PAGE_SIZE = providerA (room_id (?u ! 0)) MESSAGES_PAGE_SIZE"
    by (simp add: unreadAB normA providerB_def)
  have g6: "\<forall>j other. j < length ?u \<and>
              other (room_id (?u ! j)) MESSAGES_PAGE_SIZE
                = providerA (room_id (?u ! j)) MESSAGES_PAGE_SIZE \<longrightarrow>
              attachUnreadMessages isoParse other ?u (JStr ''U1'') ! j
                = attachUnreadMessages isoParse providerA ?u (JStr ''U1'') ! j"
    using F by (elim conjE)
  have g6': "attachUnreadMessages isoParse providerB ?u (JStr ''U1'') ! 0
                = attachUnreadMessages isoParse providerA ?u (JStr ''U1'') ! 0"
    by (rule g6 [rule_format, of 0 providerB, OF p0])
  show ?thesis
  proof (intro conjI)
    show "?u = [normalizeRoom isoParse rawRoomA, normalizeRoom isoParse rawRoomB]"
      by (rule unreadAB)
    show "providerA (JStr ''R2'') MESSAGES_PAGE_SIZE = Inl ''503 Service Unavailable''"
      by (rule d)
    show "length (attachUnreadMessages isoParse providerA ?u (JStr ''U1'')) = 2"
      using g1 e by simp
    show "unreadMessages (attachUnreadMessages isoParse providerA ?u (JStr ''U1'') ! 1) = []"
      by (rule g3)
    show "attachUnreadMessages isoParse providerA ?u (JStr ''U1'') ! 1
      \<in> set (botNoiseFilter (attachUnreadMessages isoParse providerA ?u (JStr ''U1'')))"
      by (rule g7)
    show "providerB (JStr ''R2'') MESSAGES_PAGE_SIZE = Inr (RespArray [botMessage])"
      by (rule p2)
    show "providerB (JStr ''R1'') MESSAGES_PAGE_SIZE = providerA (JStr ''R1'') MESSAGES_PAGE_SIZE"
      by (rule p1)
    show "attachUnreadMessages isoParse providerB ?u (JStr ''U1'') ! 0
                = attachUnreadMessages isoParse providerA ?u (JStr ''U1'') ! 0"
      by (rule g6')
  qed
qed

text \<open>
  C5 (as amended). The Activity Filter keeps a normalized room if and only if its type is
  \<open>direct\<close> or \<open>group\<close> and the timestamp of its \<open>lastActivityDate\<close> is at least
  \<open>now - window\<close>, the window being \<open>hours\<close> times 3600000 milliseconds; there is no upper
  bound, so a timestamp later than \<open>now\<close> is kept as well. A room whose timestamp is 0
  (a missing or invalid date) is excluded whenever the window is shorter than the time
  since the epoch, whatever its unread status. With one clock reading for all rooms, the
  list \<open>normalized\<close> holds exactly the normalized rooms that the filter keeps.
\<close>

theorem activityKeeps_lower_bound:
  "(activityKeeps now dp hours r \<longleftrightarrow>
      room_type r \<in> {JStr ''direct'', JStr ''group''}
      \<and> now - hours * 3600000 \<le> toTs dp (lastActivityDate r))
   \<and> (hours * 3600000 < now \<and> toTs dp (lastActivityDate r) = 0 \<longrightarrow>
        \<not> activityKeeps now dp hours r)
   \<and> set (normalized (\<lambda>_. now) dp hours raws) =
       {r \<in> normalizeRoom dp ` set raws. activityKeeps now dp hours r}"
  by (auto simp: activityKeeps_def inLastXhours_def roomTypesHas_iff normalized_def
        filterInLast_const Let_def)


theorem activityKeeps_lower_bound_witness:
  "(24::int) * 3600000 < 1767225600000
   \<and> toTs isoParse (lastActivityDate staleRoom) = 0
   \<and> \<not> activityKeeps 1767225600000 isoParse 24 staleRoom"
proof -
  have h: "(24::int) * 3600000 < 1767225600000" by simp
  have z: "toTs isoParse (lastActivityDate staleRoom) = 0"
    by (simp add: staleRoom_def toTs_def)
  from activityKeeps_lower_bound [of 1767225600000 isoParse 24 staleRoom] h z
  show ?thesis by simp
qed

text \<open>
  The claim as stated (the timestamp lies in the closed interval from \<open>now - window\<close> to
  \<open>now\<close>) fails on a group room whose last activity is after \<open>now\<close>: the filter keeps it.
\<close>

theorem activityKeeps_future_counterexample:
  "activityKeeps 1767225600000 isoParse 24 futureRoom
   \<and> toTs isoParse (lastActivityDate futureRoom) = 4102444800000
   \<and> \<not> (toTs isoParse (lastActivityDate futureRoom) \<le> 1767225600000)"
  by (simp add: activityKeeps_def inLastXhours_def roomTypesHas_def ROOM_TYPES_def futureRoom_def
        toTs_def isoParse_def)

text \<open>
  C6 (as amended). The people index built over the final room list has at most one entry
  for each e-mail key, and the value under a key is the \<open>personId\<close> of the first retained
  unread message, in room order and then message order, that bears that e-mail and has a
  truthy \<open>personId\<close>; there is no entry when no such message exists. A message whose
  e-mail is \<open>null\<close>, absent or empty, or whose \<open>personId\<close> is, contributes no entry.
\<close>

theorem people_first_identified_message:
  "distinct (map fst (fst (buildPeopleAndSlimMessages rooms)))
   \<and> map_of (fst (buildPeopleAndSlimMessages rooms)) k =
       (case find (\<lambda>m. truthy (getProp m ''personEmail'') \<and> truthy (getProp m ''personId'')
                        \<and> toStringJS (getProp m ''personEmail'') = k)
               (concat (map unreadMessages rooms)) of
          None \<Rightarrow> None
        | Some m \<Rightarrow> Some (getProp m ''personId''))
   \<and> (\<not> truthy (getProp m ''personEmail'') \<or> \<not> truthy (getProp m ''personId'')
        \<longrightarrow> recordPerson p m = p)"
proof -
  have a: "distinct (map fst (fst (buildPeopleAndSlimMessages rooms)))"
    by (simp add: buildPeopleAndSlimMessages_def peopleOfRooms_concat peopleOfMessages_distinct)
  have b: "map_of (fst (buildPeopleAndSlimMessages rooms)) k =
       (case find (personKey k) (concat (map unreadMessages rooms)) of
          None \<Rightarrow> None
        | Some m \<Rightarrow> Some (getProp m ''personId''))"
    by (simp add: buildPeopleAndSlimMessages_def peopleOfRooms_concat peopleOfMessages_lookup)
  have c: "personKey k = (\<lambda>m. truthy (getProp m ''personEmail'') \<and> truthy (getProp m ''personId'')
                        \<and> toStringJS (getProp m ''personEmail'') = k)"
    by (rule ext) (simp add: personKey_def)
  from a b [unfolded c] recordPerson_skip [of m p] show ?thesis
    by blast
qed

theorem people_first_identified_message_witness:
  "\<not> truthy (getProp anonMessage ''personId'')
   \<and> recordPerson [] anonMessage = []
   \<and> map_of (fst (buildPeopleAndSlimMessages [anonRoom])) ''amy@example.com'' = Some (JStr ''P1'')"
proof -
  have h: "\<not> truthy (getProp anonMessage ''personId'')"
    by (simp add: anonMessage_def getProp_def)
  have e: "truthy (getProp messageA ''personEmail'')" "truthy (getProp messageA ''personId'')"
    "toStringJS (getProp messageA ''personEmail'') = ''amy@example.com''"
    "getProp messageA ''personId'' = JStr ''P1''"
    by (simp_all add: messageA_def getProp_def)
  have u: "concat (map unreadMessages [anonRoom]) = [anonMessage, messageA]"
    by (simp add: anonRoom_def)
  from people_first_identified_message [of "[anonRoom]" "''amy@example.com''" anonMessage "[]"]
    h e u
  show ?thesis by simp
qed

text \<open>
  The claim as stated (the value is the \<open>personId\<close> of the first message bearing the
  e-mail) fails when that first message has no \<open>personId\<close>: the index then holds the
  identifier of a later message.
\<close>

theorem people_first_message_counterexample:
  "fst (buildPeopleAndSlimMessages [anonRoom]) = [(''amy@example.com'', JStr ''P1'')]
   \<and> unreadMessages anonRoom = [anonMessage, messageA]
   \<and> getProp anonMessage ''personEmail'' = JStr ''amy@example.com''
   \<and> getProp anonMessage ''personId'' = JUndefined
   \<and> getProp messageA ''personId'' = JStr ''P1''"
  by (simp add: buildPeopleAndSlimMessages_def anonRoom_def anonMessage_def messageA_def
        recordPerson_def getProp_def coalesce_def nullish_def)

text \<open>
  C7. Slimming is idempotent: slimming a slimmed message changes nothing. After one
  application the message has no \<open>roomId\<close>, \<open>personId\<close>, \<open>roomType\<close>, \<open>created\<close> or
  \<open>updated\<close> property, and the bodies are already reduced: with a \<open>markdown\<close> body
  there is no \<open>text\<close>, with an \<open>html\<close> body there is neither \<open>markdown\<close> nor \<open>text\<close>.
\<close>

theorem slimMessage_idempotent:
  "slimMessage (slimMessage m) = slimMessage m
   \<and> (\<forall>k \<in> {''roomId'', ''personId'', ''roomType'', ''created'', ''updated''}.
        k \<notin> fst ` set (slimMessage m))
   \<and> (\<not> nullish (getProp (slimMessage m) ''markdown'') \<longrightarrow>
        ''text'' \<notin> fst ` set (slimMessage m))
   \<and> (\<not> nullish (getProp (slimMessage m) ''html'') \<longrightarrow>
        ''markdown'' \<notin> fst ` set (slimMessage m) \<and> ''text'' \<notin> fst ` set (slimMessage m))"
  by (auto simp: slimMessage_twice keys_slimMessage getProp_slim_html getProp_slim_markdown
        split: if_splits)

theorem slimMessage_idempotent_witness:
  "slimMessage messageA =
     [(''id'', JStr ''M1''), (''personEmail'', JStr ''amy@example.com''),
      (''html'', JStr ''<em>hi</em>'')]
   \<and> \<not> nullish (getProp (slimMessage messageA) ''html'')
   \<and> slimMessage (slimMessage messageA) = slimMessage messageA
   \<and> ''markdown'' \<notin> fst ` set (slimMessage messageA)
   \<and> ''personId'' \<notin> fst ` set (slimMessage messageA)
   \<and> \<not> nullish (getProp (slimMessage markdownMessage) ''markdown'')
   \<and> ''text'' \<notin> fst ` set (slimMessage markdownMessage)
   \<and> slimMessage markdownMessage =
       [(''id'', JStr ''M7''), (''personEmail'', JStr ''bob@example.com''),
        (''markdown'', JStr ''*hi*'')]"
proof -
  have s: "slimMessage messageA =
     [(''id'', JStr ''M1''), (''personEmail'', JStr ''amy@example.com''),
      (''html'', JStr ''<em>hi</em>'')]"
    by (simp add: slimMessage_def messageA_def deleteProp_def getProp_def nullish_def)
  have h: "\<not> nullish (getProp (slimMessage messageA) ''html'')"
    by (simp add: s getProp_def nullish_def)
  have s2: "slimMessage markdownMessage =
       [(''id'', JStr ''M7''), (''personEmail'', JStr ''bob@example.com''),
        (''markdown'', JStr ''*hi*'')]"
    by (simp add: slimMessage_def markdownMessage_def deleteProp_def getProp_def nullish_def)
  have h2: "\<not> nullish (getProp (slimMessage markdownMessage) ''markdown'')"
    by (simp add: s2 getProp_def nullish_def)
  note TA = slimMessage_idempotent [of messageA]
  have a1: "slimMessage (slimMessage messageA) = slimMessage messageA"
    using TA by (elim conjE)
  have a2: "\<forall>k \<in> {''roomId'', ''personId'', ''roomType'', ''created'', ''updated''}.
              k \<notin> fst ` set (slimMessage messageA)"
    using TA by (elim conjE)
  have a3: "''personId'' \<notin> fst ` set (slimMessage messageA)"
    using a2 by (rule bspec) simp
  have a4: "\<not> nullish (getProp (slimMessage messageA) ''html'') \<longrightarrow>
      ''markdown'' \<notin> fst ` set (slimMessage messageA) \<and> ''text'' \<notin> fst ` set (slimMessage messageA)"
    using TA by (elim conjE)
  have a5: "''markdown'' \<notin> fst ` set (slimMessage messageA)"
    using a4 h by (elim impE conjE)
  note TB = slimMessage_idempotent [of markdownMessage]
  have b4: "\<not> nullish (getProp (slimMessage markdownMessage) ''markdown'') \<longrightarrow>
      ''text'' \<notin> fst ` set (slimMessage markdownMessage)"
    using TB by (elim conjE)
  have b5: "''text'' \<notin> fst ` set (slimMessage markdownMessage)"
    using b4 h2 by (elim impE)
  show ?thesis
    by (intro conjI) (rule s h a1 a5 a3 h2 b5 s2)+
qed

text \<open>
  C8 (as amended). The effective window is the default 24 when no value is supplied (no
  option and no environment variable; an option wins over the variable). A supplied value
  is read by \<open>parseInt\<close>: when it reads an integer of at least 1, the window is that
  integer capped at 720; when it reads an integer below 1, or no finite number at all, the
  window is the default 24, not the lower bound 1. So for a decimal numeral \<open>n\<close> the window
  is \<open>min n 720\<close> if \<open>n\<close> is at least 1 and 24 if \<open>n\<close> is 0, and 24 for every negative
  numeral. In every case the window lies between 1 and 720.
\<close>

theorem getActivityHours_default_or_capped:
  "getActivityHours None None = 24
   \<and> getActivityHours cli env =
       (case (case cli of Some s \<Rightarrow> Some s | None \<Rightarrow> env) of
          None \<Rightarrow> 24
        | Some s \<Rightarrow> (case parseInt10 s of
                       Num n \<Rightarrow> if 1 \<le> n then min n 720 else 24
                     | _ \<Rightarrow> 24))
   \<and> (int n < DBL_OVERFLOW \<longrightarrow>
        getActivityHours (Some (decimalString n)) env = (if 1 \<le> n then min (int n) 720 else 24)
        \<and> getActivityHours None (Some (decimalString n)) = (if 1 \<le> n then min (int n) 720 else 24))
   \<and> getActivityHours (Some (CHR ''-'' # decimalString n)) env = 24
   \<and> 1 \<le> getActivityHours cli env \<and> getActivityHours cli env \<le> 720"
proof -
  have a: "getActivityHours None None = 24"
    by (simp add: getActivityHours_raw)
  have b: "getActivityHours (Some (decimalString n)) env = (if 1 \<le> n then min (int n) 720 else 24)"
    "getActivityHours None (Some (decimalString n)) = (if 1 \<le> n then min (int n) 720 else 24)"
    if "int n < DBL_OVERFLOW"
    using that by (simp_all add: getActivityHours_raw parseInt10_decimalString)
  have c: "getActivityHours (Some (CHR ''-'' # decimalString n)) env = 24"
    by (simp add: getActivityHours_raw parseInt10_minus_decimalString)
  have d: "1 \<le> getActivityHours cli env \<and> getActivityHours cli env \<le> 720"
    by (simp add: getActivityHours_raw split: option.splits jsnum.splits)
  from a b c d getActivityHours_raw [of cli env] show ?thesis
    by blast
qed

theorem getActivityHours_default_or_capped_witness:
  "int 1000 < DBL_OVERFLOW
   \<and> getActivityHours (Some ''1000'') None = 720
   \<and> getActivityHours None (Some ''1000'') = 720
   \<and> getActivityHours (Some ''-1000'') None = 24"
proof -
  have h: "int 1000 < DBL_OVERFLOW"
    by (simp add: DBL_OVERFLOW_def)
  from getActivityHours_default_or_capped [where n = 1000 and env = None and cli = None]
    h dec1000
  show ?thesis by simp
qed

text \<open>
  The claim as stated (the supplied value clamped to the range from 1 to 720) fails for
  the supplied value 0: clamping gives 1, the script gives 24.
\<close>

theorem getActivityHours_clamp_counterexample:
  "getActivityHours (Some ''0'') None = 24
   \<and> max 1 (min 720 (0::int)) = 1
   \<and> getActivityHours (Some ''0'') None \<noteq> max 1 (min 720 0)"
  by (simp add: getActivityHours_def parseInt10_def isWhiteSpace_def isDigit_def
        DBL_OVERFLOW_def DEFAULT_ACTIVITY_HOURS_def MIN_ACTIVITY_HOURS_def MAX_ACTIVITY_HOURS_def)

text \<open>
  C9 (as amended). In a run of the send script with a credential, a body that is
  non-empty after trimming and a client initialisation that succeeds, every recipient
  string that is non-empty after trimming is classified as a person when it contains
  \<open>@\<close> and as a room otherwise, and exactly one message-creation call is submitted: its
  target field is \<open>toPersonEmail\<close> in the person case and \<open>roomId\<close> in the room case,
  holding the trimmed recipient, with the trimmed body as \<open>markdown\<close>. This holds whether
  the provider accepts or rejects the call. Every recipient that is empty after trimming
  is rejected: no call is submitted and the run exits with code 1, whatever the other
  inputs are, and with a credential present the message printed is the one that asks for
  a recipient.
\<close>

theorem sendMain_one_call:
  assumes "raw = (case optTo of Some s \<Rightarrow> s | None \<Rightarrow> (case envTo of Some s \<Rightarrow> s | None \<Rightarrow> []))"
    and "body = (case optMessage of Some s \<Rightarrow> s
                 | None \<Rightarrow> (case envMessage of Some s \<Rightarrow> s | None \<Rightarrow> []))"
  shows "isEmail (trim raw) = (CHR ''@'' \<in> set raw)
       \<and> (token = Some tok \<and> trim tok \<noteq> [] \<and> trim raw \<noteq> [] \<and> trim body \<noteq> []
            \<and> initWebex tok = Inr u \<longrightarrow>
            created (sendMain token optTo envTo optMessage envMessage initWebex create) =
              [if CHR ''@'' \<in> set raw
               then [(''toPersonEmail'', JStr (trim raw)), (''markdown'', JStr (trim body))]
               else [(''roomId'', JStr (trim raw)), (''markdown'', JStr (trim body))]]
            \<and> length (created (sendMain token optTo envTo optMessage envMessage initWebex create)) = 1)
       \<and> (trim raw = [] \<longrightarrow>
            created (sendMain token optTo envTo optMessage envMessage initWebex create) = []
            \<and> exitCode (sendMain token optTo envTo optMessage envMessage initWebex create) = 1)
       \<and> (token = Some tok \<and> trim tok \<noteq> [] \<and> trim raw = [] \<longrightarrow>
            printed (sendMain token optTo envTo optMessage envMessage initWebex create) =
              OutError ''--to / -t or WEBEX_TO required (room ID or person email)'')"
proof -
  have e: "isEmail (trim raw) = (CHR ''@'' \<in> set raw)"
    by (rule isEmail_trim)
  have c: "created (sendMain token optTo envTo optMessage envMessage initWebex create) =
           [if isEmail (trim raw)
            then [(''toPersonEmail'', JStr (trim raw)), (''markdown'', JStr (trim body))]
            else [(''roomId'', JStr (trim raw)), (''markdown'', JStr (trim body))]]"
    if "token = Some tok" "trim tok \<noteq> []" "trim raw \<noteq> []" "trim body \<noteq> []"
      "initWebex tok = Inr u"
    using that unfolding assms
    by (simp add: sendMain_def Let_def split: sum.splits)
  have c': "created (sendMain token optTo envTo optMessage envMessage initWebex create) =
              [if CHR ''@'' \<in> set raw
               then [(''toPersonEmail'', JStr (trim raw)), (''markdown'', JStr (trim body))]
               else [(''roomId'', JStr (trim raw)), (''markdown'', JStr (trim body))]]
            \<and> length (created (sendMain token optTo envTo optMessage envMessage initWebex create)) = 1"
    if "token = Some tok \<and> trim tok \<noteq> [] \<and> trim raw \<noteq> [] \<and> trim body \<noteq> []
            \<and> initWebex tok = Inr u"
    using that c by (simp add: e)
  have b: "created (sendMain token optTo envTo optMessage envMessage initWebex create) = []
            \<and> exitCode (sendMain token optTo envTo optMessage envMessage initWebex create) = 1"
    if "trim raw = []"
    using that unfolding assms
    by (cases token) (simp_all add: sendMain_def Let_def)
  have p: "printed (sendMain token optTo envTo optMessage envMessage initWebex create) =
              OutError ''--to / -t or WEBEX_TO required (room ID or person email)''"
    if "token = Some tok \<and> trim tok \<noteq> [] \<and> trim raw = []"
    using that unfolding assms
    by (simp add: sendMain_def Let_def)
  show ?thesis
  proof (intro conjI impI)
    show "isEmail (trim raw) = (CHR ''@'' \<in> set raw)" by (rule e)
    assume h: "token = Some tok \<and> trim tok \<noteq> [] \<and> trim raw \<noteq> [] \<and> trim body \<noteq> []
            \<and> initWebex tok = Inr u"
    show "created (sendMain token optTo envTo optMessage envMessage initWebex create) =
              [if CHR ''@'' \<in> set raw
               then [(''toPersonEmail'', JStr (trim raw)), (''markdown'', JStr (trim body))]
               else [(''roomId'', JStr (trim raw)), (''markdown'', JStr (trim body))]]"
      using c' [OF h] by (rule conjunct1)
    show "length (created (sendMain token optTo envTo optMessage envMessage initWebex create)) = 1"
      using c' [OF h] by (rule conjunct2)
  next
    assume h: "trim raw = []"
    show "created (sendMain token optTo envTo optMessage envMessage initWebex create) = []"
      using b [OF h] by (rule conjunct1)
    show "exitCode (sendMain token optTo envTo optMessage envMessage initWebex create) = 1"
      using b [OF h] by (rule conjunct2)
  next
    assume h: "token = Some tok \<and> trim tok \<noteq> [] \<and> trim raw = []"
    show "printed (sendMain token optTo envTo optMessage envMessage initWebex create) =
              OutError ''--to / -t or WEBEX_TO required (room ID or person email)''"
      by (rule p [OF h])
  qed
qed

theorem sendMain_one_call_witness:
  "trim ''token-1'' \<noteq> [] \<and> trim '' amy@example.com'' \<noteq> [] \<and> trim ''**hi**'' \<noteq> []
   \<and> initOk ''token-1'' = Inr ()
   \<and> created (sendMain (Some ''token-1'') (Some '' amy@example.com'') None (Some ''**hi**'') None
        initOk createOk)
      = [[(''toPersonEmail'', JStr ''amy@example.com''), (''markdown'', JStr ''**hi**'')]]
   \<and> created (sendMain (Some ''token-1'') None (Some ''R1'') None (Some ''**hi**'')
        initOk createOk)
      = [[(''roomId'', JStr ''R1''), (''markdown'', JStr ''**hi**'')]]
   \<and> trim [CHR 0x09, CHR '' ''] = []
   \<and> created (sendMain (Some ''token-1'') (Some [CHR 0x09, CHR '' '']) None (Some ''**hi**'') None
        initOk createOk) = []
   \<and> exitCode (sendMain (Some ''token-1'') (Some [CHR 0x09, CHR '' '']) None (Some ''**hi**'') None
        initOk createOk) = 1
   \<and> printed (sendMain (Some ''token-1'') (Some [CHR 0x09, CHR '' '']) None (Some ''**hi**'') None
        initOk createOk) = OutError ''--to / -t or WEBEX_TO required (room ID or person email)''"
proof -
  have t: "trim ''token-1'' = ''token-1''" "trim '' amy@example.com'' = ''amy@example.com''"
    "trim ''**hi**'' = ''**hi**''" "trim ''R1'' = ''R1''"
    by (simp_all add: trim_def isWhiteSpace_def)
  have tb: "trim [CHR 0x09, CHR '' ''] = []"
    by (simp add: trim_def isWhiteSpace_def)
  have i: "initOk ''token-1'' = Inr ()"
    by (simp add: initOk_def)
  have a: "created (sendMain (Some ''token-1'') (Some '' amy@example.com'') None (Some ''**hi**'') None
        initOk createOk)
      = [[(''toPersonEmail'', JStr ''amy@example.com''), (''markdown'', JStr ''**hi**'')]]"
    using sendMain_one_call [where token = "Some ''token-1''" and tok = "''token-1''"
        and optTo = "Some '' amy@example.com''" and envTo = None and raw = "'' amy@example.com''"
        and optMessage = "Some ''**hi**''" and envMessage = None and body = "''**hi**''"
        and initWebex = initOk and u = "()" and create = createOk] t i
    by simp
  have b: "created (sendMain (Some ''token-1'') None (Some ''R1'') None (Some ''**hi**'')
        initOk createOk)
      = [[(''roomId'', JStr ''R1''), (''markdown'', JStr ''**hi**'')]]"
    using sendMain_one_call [where token = "Some ''token-1''" and tok = "''token-1''"
        and optTo = None and envTo = "Some ''R1''" and raw = "''R1''"
        and optMessage = None and envMessage = "Some ''**hi**''" and body = "''**hi**''"
        and initWebex = initOk and u = "()" and create = createOk] t i
    by simp
  have c: "created (sendMain (Some ''token-1'') (Some [CHR 0x09, CHR '' '']) None (Some ''**hi**'') None
        initOk createOk) = []
   \<and> exitCode (sendMain (Some ''token-1'') (Some [CHR 0x09, CHR '' '']) None (Some ''**hi**'') None
        initOk createOk) = 1
   \<and> printed (sendMain (Some ''token-1'') (Some [CHR 0x09, CHR '' '']) None (Some ''**hi**'') None
        initOk createOk) = OutError ''--to / -t or WEBEX_TO required (room ID or person email)''"
    using sendMain_one_call [where token = "Some ''token-1''" and tok = "''token-1''"
        and optTo = "Some [CHR 0x09, CHR '' '']" and envTo = None and raw = "[CHR 0x09, CHR '' '']"
        and optMessage = "Some ''**hi**''" and envMessage = None and body = "''**hi**''"
        and initWebex = initOk and u = "()" and create = createOk] t tb
    by simp
  show ?thesis
    by (intro conjI) (simp_all only: t tb i a b c, simp_all)
qed

text \<open>
  The claim as stated (for every non-empty recipient string) fails for a recipient of
  white space only: it is a non-empty string, and the script reports a missing recipient
  and submits no call.
\<close>

theorem sendMain_blank_recipient_counterexample:
  "'' '' \<noteq> []
   \<and> created (sendMain (Some ''token-1'') (Some '' '') None (Some ''**hi**'') None
        initOk createOk) = []
   \<and> exitCode (sendMain (Some ''token-1'') (Some '' '') None (Some ''**hi**'') None
        initOk createOk) = 1"
  by (simp add: sendMain_def trim_def isWhiteSpace_def)

text \<open>
  C10. The fallbacks of the Room Normalizer are triggered by any falsy value, not only
  by absence. For a raw room whose \<open>title\<close> is absent, \<open>null\<close> or the empty string, the
  normalized title is the room's \<open>id\<close>. The normalized type is \<open>type\<close> when that is
  truthy, otherwise \<open>roomType\<close> when that is truthy, otherwise \<open>group\<close>; so an
  empty-string \<open>type\<close> with no usable \<open>roomType\<close> normalizes to \<open>group\<close>.
\<close>

theorem normalizeRoom_falsy_fallbacks:
  "(getProp r ''title'' \<in> {JUndefined, JNull, JStr ''''} \<longrightarrow>
      title (normalizeRoom dp r) = getProp r ''id'')
   \<and> title (normalizeRoom dp r) =
       (if truthy (getProp r ''title'') then getProp r ''title'' else getProp r ''id'')
   \<and> room_type (normalizeRoom dp r) =
       (if truthy (getProp r ''type'') then getProp r ''type''
        else if truthy (getProp r ''roomType'') then getProp r ''roomType''
        else JStr ''group'')
   \<and> (getProp r ''type'' = JStr '''' \<and> \<not> truthy (getProp r ''roomType'') \<longrightarrow>
        room_type (normalizeRoom dp r) = JStr ''group'')"
  by (auto simp: normalizeRoom_def Let_def orJS_def)

theorem normalizeRoom_falsy_fallbacks_witness:
  "getProp rawRoomA ''title'' = JStr '''' \<and> getProp rawRoomA ''type'' = JStr ''''
   \<and> \<not> truthy (getProp rawRoomA ''roomType'')
   \<and> title (normalizeRoom isoParse rawRoomA) = JStr ''R1''
   \<and> room_type (normalizeRoom isoParse rawRoomA) = JStr ''group''"
proof -
  have h1: "getProp rawRoomA ''title'' = JStr ''''"
    and h2: "getProp rawRoomA ''type'' = JStr ''''"
    and h3: "\<not> truthy (getProp rawRoomA ''roomType'')"
    and h4: "getProp rawRoomA ''id'' = JStr ''R1''"
    by (simp_all add: rawRoomA_def getProp_def)
  from normalizeRoom_falsy_fallbacks [of rawRoomA isoParse] h1 h2 h3 h4 show ?thesis
    by simp
qed


end
